theory Spec2Isabelle
  imports Main "HOL-Library.Word"
begin

unbundle bit_operations_syntax

section \<open>Values of the plugin framework\<close>

text \<open>
  The data source is written against the Terraform plugin framework and the packages
  uuid and time. What it calls of them is modelled in this section and the next, from
  their documented behaviour. Three of their operations are left open, as parameters of
  a read: the decoding of a configuration, the parsing of an identifier, and the
  conversion of a model into a state value. What is proved of a read holds whatever
  they return.

  A framework string attribute (\<open>types.String\<close>) is null, unknown, or a known value.
  \<open>IsNull\<close> is true of the null state only; \<open>ValueString\<close> is the empty string
  for null and unknown.
\<close>

datatype String = StringNull | StringUnknown | StringValue string

fun IsNull :: "String \<Rightarrow> bool" where
  "IsNull StringNull = True"
| "IsNull StringUnknown = False"
| "IsNull (StringValue s) = False"

fun ValueString :: "String \<Rightarrow> string" where
  "ValueString StringNull = []"
| "ValueString StringUnknown = []"
| "ValueString (StringValue s) = s"

text \<open>\<open>types.StringPointerValue\<close>: a nil pointer is null, any other pointer a known value.\<close>

fun StringPointerValue :: "string option \<Rightarrow> String" where
  "StringPointerValue None = StringNull"
| "StringPointerValue (Some s) = StringValue s"

subsection \<open>Diagnostics\<close>

datatype Severity = SeverityError | SeverityWarning

type_synonym Path = "string list"

definition path_Root :: "string \<Rightarrow> Path" where
  "path_Root name = [name]"

text \<open>
  A diagnostic has a severity, a summary, a detail and, when it is attribute-level, the
  path of the attribute it is about.
\<close>

datatype Diagnostic =
  Diagnostic (Severity: Severity) (Summary: string) (Detail: string) (AttrPath: "Path option")

definition HasError :: "Diagnostic list \<Rightarrow> bool" where
  "HasError diags = list_ex (\<lambda>d. Severity d = SeverityError) diags"

text \<open>\<open>Diagnostics.Append\<close> skips a diagnostic the collection already contains.\<close>

fun Append :: "Diagnostic list \<Rightarrow> Diagnostic list \<Rightarrow> Diagnostic list" where
  "Append diags [] = diags"
| "Append diags (d # ins) = Append (if d \<in> set diags then diags else diags @ [d]) ins"

definition AddError :: "Diagnostic list \<Rightarrow> string \<Rightarrow> string \<Rightarrow> Diagnostic list" where
  "AddError diags summary detail = Append diags [Diagnostic SeverityError summary detail None]"

definition AddAttributeError ::
  "Diagnostic list \<Rightarrow> Path \<Rightarrow> string \<Rightarrow> string \<Rightarrow> Diagnostic list" where
  "AddAttributeError diags p summary detail =
     Append diags [Diagnostic SeverityError summary detail (Some p)]"

section \<open>Identifiers and timestamps\<close>

text \<open>\<open>uuid.UUID\<close> is an array of sixteen bytes; \<open>uuid.Nil\<close> is all zero.\<close>

type_synonym byte = "8 word"

datatype UUID =
  UUID byte byte byte byte byte byte byte byte byte byte byte byte byte byte byte byte

definition uuid_Nil :: UUID where
  "uuid_Nil = UUID 0 0 0 0 0 0 0 0 0 0 0 0 0 0 0 0"

definition hextable :: string where
  "hextable = ''0123456789abcdef''"

text \<open>\<open>hex.Encode\<close>: two digits a byte, the high nibble first.\<close>

fun hex_Encode :: "byte list \<Rightarrow> string" where
  "hex_Encode [] = []"
| "hex_Encode (v # vs) =
     hextable ! unat (drop_bit 4 v) # hextable ! unat (v AND 0x0f) # hex_Encode vs"

text \<open>
  \<open>UUID.String\<close>: the form xxxxxxxx-xxxx-xxxx-xxxx-xxxxxxxxxxxx, bytes 0-3, 4-5, 6-7,
  8-9 and 10-15 in hexadecimal.
\<close>

fun uuid_String :: "UUID \<Rightarrow> string" where
  "uuid_String (UUID b0 b1 b2 b3 b4 b5 b6 b7 b8 b9 b10 b11 b12 b13 b14 b15) =
     hex_Encode [b0, b1, b2, b3] @ ''-'' @ hex_Encode [b4, b5] @ ''-'' @
     hex_Encode [b6, b7] @ ''-'' @ hex_Encode [b8, b9] @ ''-'' @
     hex_Encode [b10, b11, b12, b13, b14, b15]"

text \<open>
  A \<open>time.Time\<close>, by what formatting reads of it: the date and clock in its location and
  the location's offset east of UTC in seconds.
\<close>

record Time =
  Year :: int
  Month :: int
  Day :: int
  Hour :: int
  Minute :: int
  Second :: int
  Offset :: int

function decimal :: "nat \<Rightarrow> string" where
  "decimal u = (if u < 10 then [''0123456789'' ! u]
                else decimal (u div 10) @ [''0123456789'' ! (u mod 10)])"
  by pat_completeness auto
termination
  by (relation "measure id") auto

text \<open>\<open>appendInt\<close> of package time: a sign for a negative, then zero padding to the width.\<close>

definition appendInt :: "int \<Rightarrow> nat \<Rightarrow> string" where
  "appendInt x width =
     (let u = nat \<bar>x\<bar>; ds = decimal u
      in (if x < 0 then ''-'' else []) @ replicate (width - length ds) (CHR ''0'') @ ds)"

text \<open>
  \<open>Time.Format(time.RFC3339)\<close>: date, \<open>T\<close>, clock, then \<open>Z\<close> for offset zero and
  otherwise the signed offset in hours and minutes. Go's integer division truncates
  toward zero, so the minutes of a negative offset are those of its absolute value.
\<close>

definition Format_RFC3339 :: "Time \<Rightarrow> string" where
  "Format_RFC3339 t =
     appendInt (Year t) 4 @ ''-'' @ appendInt (Month t) 2 @ ''-'' @ appendInt (Day t) 2 @
     ''T'' @ appendInt (Hour t) 2 @ '':'' @ appendInt (Minute t) 2 @ '':'' @
     appendInt (Second t) 2 @
     (if Offset t = 0 then ''Z''
      else (let zone = sgn (Offset t) * (\<bar>Offset t\<bar> div 60);
                zabs = \<bar>zone\<bar>
            in (if zone < 0 then ''-'' else ''+'') @
               appendInt (zabs div 60) 2 @ '':'' @ appendInt (zabs mod 60) 2))"

section \<open>The API client\<close>

text \<open>
  A Go \<open>error\<close> is carried as the text its \<open>Error\<close> method returns. A call that
  returns a value and an error is a sum: the error on the left, or the value on the right.
\<close>

type_synonym error = string

text \<open>
  Modelled from the spec: the type \<open>api.Workspace\<close>, whose declaration is in another
  file of the package. A workspace has an identifier, creation and update timestamps
  that may be absent, a name, a handle and a description that may be absent; these are
  the fields \<open>Read\<close> takes from it, a pointer field as an option.
\<close>

record Workspace =
  Workspace_ID :: UUID
  Workspace_Created :: "Time option"
  Workspace_Updated :: "Time option"
  Workspace_Name :: string
  Workspace_Handle :: string
  Workspace_Description :: "string option"

text \<open>
  Modelled from the spec: the interface \<open>api.WorkspacesClient\<close>, declared in another
  file of the package. Of its verbs the data source calls \<open>Get\<close>, which takes a context
  and an identifier and returns the entity or an error. A read calls it at most once, so
  the call is a function from the identifier to what it returns; the context is left out.
\<close>

record WorkspacesClient =
  Get :: "UUID \<Rightarrow> error + Workspace"

text \<open>
  The interface \<open>PrefectClient\<close>. Of its accessors the data source calls \<open>Workspaces\<close>,
  once at most in a read.
\<close>

record PrefectClient =
  Workspaces :: "UUID \<Rightarrow> error + WorkspacesClient"

section \<open>The workspace data source\<close>

text \<open>The client field is nil until \<open>Configure\<close> stores a client.\<close>

record WorkspaceDataSource =
  client :: "PrefectClient option"

record WorkspaceDataSourceModel =
  ID :: String
  Created :: String
  Updated :: String
  AccountID :: String
  Name :: String
  Handle :: String
  Description :: String

definition NewWorkspaceDataSource :: WorkspaceDataSource where
  "NewWorkspaceDataSource = \<lparr>client = None\<rparr>"

definition Metadata :: "string \<Rightarrow> string" where
  "Metadata ProviderTypeName = ProviderTypeName @ ''_workspace''"

subsection \<open>Configure\<close>

text \<open>
  The provider data is an untyped value: nil, a value that implements \<open>PrefectClient\<close>,
  or a value of another type, of which only the type's name (what \<open>%T\<close> prints) is read.
\<close>

datatype ProviderData =
  ProviderData_nil
| ProviderData_client PrefectClient
| ProviderData_other string

record ConfigureResponse =
  Configure_Diagnostics :: "Diagnostic list"

definition Configure ::
  "WorkspaceDataSource \<Rightarrow> ProviderData \<Rightarrow> ConfigureResponse
     \<Rightarrow> WorkspaceDataSource \<times> ConfigureResponse" where
  "Configure d req_ProviderData resp =
     (case req_ProviderData of
        ProviderData_nil \<Rightarrow> (d, resp)
      | ProviderData_other tname \<Rightarrow>
          (d, resp\<lparr>Configure_Diagnostics :=
                AddError (Configure_Diagnostics resp)
                  ''Unexpected Data Source Configure Type''
                  (''Expected api.PrefectClient, got: '' @ tname @
                   ''. Please report this issue to the provider developers.'')\<rparr>)
      | ProviderData_client c \<Rightarrow> (d\<lparr>client := Some c\<rparr>, resp))"

subsection \<open>Read\<close>

text \<open>
  What a read is given from outside this file: the outcome of decoding the configuration
  into the model (\<open>req.Config.Get\<close>), the parser of package uuid, and the diagnostics
  of converting a model into a state value (inside \<open>resp.State.Set\<close>).
\<close>

record ReadRequest =
  Config_Get :: "Diagnostic list \<times> WorkspaceDataSourceModel"

record ReadEnv =
  uuid_Parse :: "string \<Rightarrow> error + UUID"
  State_Set_diags :: "WorkspaceDataSourceModel \<Rightarrow> Diagnostic list"

record ReadResponse =
  Diagnostics :: "Diagnostic list"
  State :: WorkspaceDataSourceModel

text \<open>\<open>State.Set\<close> replaces the state unless the conversion reports an error.\<close>

definition State_Set ::
  "ReadEnv \<Rightarrow> WorkspaceDataSourceModel \<Rightarrow> WorkspaceDataSourceModel
     \<Rightarrow> Diagnostic list \<times> WorkspaceDataSourceModel" where
  "State_Set env st model =
     (let diags = State_Set_diags env model
      in if HasError diags then (diags, st) else (diags, model))"

text \<open>The calls a read makes on the client, in order.\<close>

datatype Call = Call_Workspaces UUID | Call_Get UUID

text \<open>Calling a method of the nil client is a run-time panic.\<close>

datatype Panic = NilPointerDereference

text \<open>
  The account scope of a read: \<open>uuid.Nil\<close>, unless the account ID is non-null and
  non-empty, when it is what the parser makes of it.
\<close>

definition resolve_accountID :: "ReadEnv \<Rightarrow> WorkspaceDataSourceModel \<Rightarrow> error + UUID" where
  "resolve_accountID env model =
     (if \<not> IsNull (AccountID model) \<and> ValueString (AccountID model) \<noteq> []
      then uuid_Parse env (ValueString (AccountID model))
      else Inr uuid_Nil)"

text \<open>The model after the fields of the workspace are written into it.\<close>

definition populate :: "WorkspaceDataSourceModel \<Rightarrow> Workspace \<Rightarrow> WorkspaceDataSourceModel" where
  "populate model workspace =
     model\<lparr>
       ID := StringValue (uuid_String (Workspace_ID workspace)),
       Created := (case Workspace_Created workspace of
                     None \<Rightarrow> StringNull
                   | Some t \<Rightarrow> StringValue (Format_RFC3339 t)),
       Updated := (case Workspace_Updated workspace of
                     None \<Rightarrow> StringNull
                   | Some t \<Rightarrow> StringValue (Format_RFC3339 t)),
       Name := StringValue (Workspace_Name workspace),
       Handle := StringValue (Workspace_Handle workspace),
       Description := StringPointerValue (Workspace_Description workspace)\<rparr>"

text \<open>
  \<open>Read\<close> takes the response it is to fill and returns it with the calls it made, or
  panics. Every early return of the source is a branch here, in the source's order.
\<close>

definition Read ::
  "WorkspaceDataSource \<Rightarrow> ReadEnv \<Rightarrow> ReadRequest \<Rightarrow> ReadResponse
     \<Rightarrow> Panic + (ReadResponse \<times> Call list)" where
  "Read d env req resp0 =
     (let (cdiags, model) = Config_Get req;
          resp = resp0\<lparr>Diagnostics := Append (Diagnostics resp0) cdiags\<rparr>
      in
      if HasError (Diagnostics resp) then Inr (resp, [])
      else if \<not> IsNull (ID model) \<and> \<not> IsNull (Name model) then
        Inr (resp\<lparr>Diagnostics := AddError (Diagnostics resp)
                    ''Conflicting workspace lookup keys''
                    ''Workspaces can be identified by their unique name or ID, but not both.''\<rparr>,
             [])
      else
        (case resolve_accountID env model of
           Inl err \<Rightarrow>
             Inr (resp\<lparr>Diagnostics := AddAttributeError (Diagnostics resp)
                         (path_Root ''account_id'')
                         ''Error parsing Account ID''
                         (''Could not parse account ID to UUID, unexpected error: '' @ err)\<rparr>,
                  [])
         | Inr accountID \<Rightarrow>
             (case client d of
                None \<Rightarrow> Inl NilPointerDereference
              | Some c \<Rightarrow>
                  (case Workspaces c accountID of
                     Inl err \<Rightarrow>
                       Inr (resp\<lparr>Diagnostics := AddError (Diagnostics resp)
                                   ''Error creating workspace client''
                                   (''Could not create workspace client, unexpected error: '' @ err @
                                    ''. This is a bug in the provider, please report this to the maintainers.'')\<rparr>,
                            [Call_Workspaces accountID])
                   | Inr wclient \<Rightarrow>
                       (case uuid_Parse env (ValueString (ID model)) of
                          Inl err \<Rightarrow>
                            Inr (resp\<lparr>Diagnostics := AddAttributeError (Diagnostics resp)
                                        (path_Root ''id'')
                                        ''Error parsing Workspace ID''
                                        (''Could not parse workspace ID to UUID, unexpected error: '' @ err)\<rparr>,
                                 [Call_Workspaces accountID])
                        | Inr workspaceID \<Rightarrow>
                            (case Get wclient workspaceID of
                               Inl err \<Rightarrow>
                                 Inr (resp\<lparr>Diagnostics := AddError (Diagnostics resp)
                                             ''Error refreshing workspace state''
                                             (''Could not read workspace, unexpected error: '' @ err)\<rparr>,
                                      [Call_Workspaces accountID, Call_Get workspaceID])
                             | Inr workspace \<Rightarrow>
                                 (let (sdiags, st) =
                                        State_Set env (State resp) (populate model workspace)
                                  in Inr (resp\<lparr>Diagnostics := Append (Diagnostics resp) sdiags,
                                                State := st\<rparr>,
                                          [Call_Workspaces accountID, Call_Get workspaceID]))))))))"

section \<open>The canonical form of an identifier\<close>

text \<open>
  Thirty-six characters: lower-case hexadecimal digits in groups of 8, 4, 4, 4 and 12,
  a hyphen between two groups.
\<close>

definition lower_hex :: "char \<Rightarrow> bool" where
  "lower_hex c = (c \<in> set ''0123456789abcdef'')"

definition canonical_form :: "string \<Rightarrow> bool" where
  "canonical_form s =
     (length s = 36 \<and> s ! 8 = CHR ''-'' \<and> s ! 13 = CHR ''-'' \<and> s ! 18 = CHR ''-'' \<and>
      s ! 23 = CHR ''-'' \<and>
      list_all lower_hex (take 8 s) \<and> list_all lower_hex (take 4 (drop 9 s)) \<and>
      list_all lower_hex (take 4 (drop 14 s)) \<and> list_all lower_hex (take 4 (drop 19 s)) \<and>
      list_all lower_hex (drop 24 s))"

section \<open>Test doubles\<close>

text \<open>
  A workspace, a client that serves one workspace and answers not-found for any other
  ID, a parser that knows two identifiers and refuses any other text in the words of
  package uuid, and a state that takes any model.
\<close>

definition prod_id :: UUID where
  "prod_id = UUID 0x11 0x11 0x11 0x11 0x11 0x11 0x11 0x11 0x11 0x11 0x11 0x11 0x11 0x11 0x11 0x11"

definition prod_workspace :: Workspace where
  "prod_workspace =
     \<lparr>Workspace_ID = prod_id,
      Workspace_Created =
        Some \<lparr>Year = 2023, Month = 1, Day = 1, Hour = 0, Minute = 0, Second = 0, Offset = 0\<rparr>,
      Workspace_Updated = None,
      Workspace_Name = ''prod'',
      Workspace_Handle = ''prod-handle'',
      Workspace_Description = None\<rparr>"

definition ab_id :: UUID where
  "ab_id = UUID 0xAB 0xAB 0xAB 0xAB 0xAB 0xAB 0xAB 0xAB 0xAB 0xAB 0xAB 0xAB 0xAB 0xAB 0xAB 0xAB"

definition ab_workspace :: Workspace where
  "ab_workspace = prod_workspace\<lparr>Workspace_ID := ab_id\<rparr>"

definition blank_workspace :: Workspace where
  "blank_workspace = prod_workspace\<lparr>Workspace_Description := Some []\<rparr>"

definition stub_workspaces_client :: "Workspace \<Rightarrow> WorkspacesClient" where
  "stub_workspaces_client ws =
     \<lparr>Get = (\<lambda>workspaceID.
        if workspaceID = Workspace_ID ws then Inr ws else Inl ''status code 404 Not Found'')\<rparr>"

definition stub_client :: "Workspace \<Rightarrow> PrefectClient" where
  "stub_client ws = \<lparr>Workspaces = (\<lambda>accountID. Inr (stub_workspaces_client ws))\<rparr>"

definition stub_Parse :: "string \<Rightarrow> error + UUID" where
  "stub_Parse s =
     (if s = ''11111111-1111-1111-1111-111111111111'' then Inr prod_id
      else if s = ''ABABABAB-ABAB-ABAB-ABAB-ABABABABABAB'' then Inr ab_id
      else if length s \<in> {32, 36, 38, 45} then Inl ''invalid UUID format''
      else Inl (''invalid UUID length: '' @ decimal (length s)))"

definition stub_env :: ReadEnv where
  "stub_env = \<lparr>uuid_Parse = stub_Parse, State_Set_diags = (\<lambda>model. [])\<rparr>"

definition config :: "String \<Rightarrow> String \<Rightarrow> String \<Rightarrow> WorkspaceDataSourceModel" where
  "config id_attr account_id_attr name_attr =
     \<lparr>ID = id_attr, Created = StringNull, Updated = StringNull, AccountID = account_id_attr,
      Name = name_attr, Handle = StringNull, Description = StringNull\<rparr>"

text \<open>A request that decodes to the given configuration, and the response to fill for it.\<close>

definition request :: "WorkspaceDataSourceModel \<Rightarrow> ReadRequest" where
  "request cfg = \<lparr>Config_Get = ([], cfg)\<rparr>"

definition response :: "WorkspaceDataSourceModel \<Rightarrow> ReadResponse" where
  "response cfg = \<lparr>Diagnostics = [], State = cfg\<rparr>"

text \<open>
  A request whose decoding reports an error, and a response that holds an error before
  the read starts.
\<close>

definition decode_failure :: Diagnostic where
  "decode_failure =
     Diagnostic SeverityError ''Value Conversion Error''
       ''An unexpected error was encountered trying to build a value.'' None"

definition failing_request :: "WorkspaceDataSourceModel \<Rightarrow> ReadRequest" where
  "failing_request cfg = \<lparr>Config_Get = ([decode_failure], cfg)\<rparr>"

definition earlier_error :: Diagnostic where
  "earlier_error = Diagnostic SeverityError ''Earlier error'' ''Reported before the read.'' None"

definition failed_response :: "WorkspaceDataSourceModel \<Rightarrow> ReadResponse" where
  "failed_response cfg = \<lparr>Diagnostics = [earlier_error], State = cfg\<rparr>"

section \<open>Diagnostics\<close>

lemma set_Append: "set (Append ds ins) = set ds \<union> set ins"
  by (induction ins arbitrary: ds) auto

lemma HasError_Append: "HasError (Append ds ins) = (HasError ds \<or> HasError ins)"
  by (auto simp: HasError_def list_ex_iff set_Append)

lemma error_not_member:
  assumes "\<not> HasError ds" and "Severity d = SeverityError"
  shows "d \<notin> set ds"
  using assms unfolding HasError_def list_ex_iff by blast

lemma AddError_new:
  assumes "\<not> HasError ds"
  shows "AddError ds s t = ds @ [Diagnostic SeverityError s t None]"
proof -
  have "Diagnostic SeverityError s t None \<notin> set ds"
    by (rule error_not_member [OF assms]) simp
  then show ?thesis by (simp add: AddError_def)
qed

lemma AddAttributeError_new:
  assumes "\<not> HasError ds"
  shows "AddAttributeError ds p s t = ds @ [Diagnostic SeverityError s t (Some p)]"
proof -
  have "Diagnostic SeverityError s t (Some p) \<notin> set ds"
    by (rule error_not_member [OF assms]) simp
  then show ?thesis by (simp add: AddAttributeError_def)
qed

lemma HasError_snoc: "HasError (ds @ [d]) = (HasError ds \<or> Severity d = SeverityError)"
  by (auto simp: HasError_def)

lemma no_errors_filter:
  assumes "\<not> HasError ds"
  shows "filter (\<lambda>d. Severity d = SeverityError) ds = []"
  using assms unfolding HasError_def list_ex_iff by (simp add: filter_empty_conv)

section \<open>The rendering of an identifier\<close>

lemma hextable_nth:
  assumes "n < 16"
  shows "lower_hex (hextable ! n)"
proof -
  from assms have "n < length hextable" by (simp add: hextable_def)
  then have "hextable ! n \<in> set hextable" by (rule nth_mem)
  then show ?thesis by (simp add: lower_hex_def hextable_def)
qed

lemma hex_hi: "lower_hex (hextable ! unat (drop_bit 4 (v::byte)))"
proof -
  have "unat v < 256" using unsigned_less [of v, where ?'a = nat] by simp
  then have "unat v div 16 < 16" by simp
  moreover have "unat (drop_bit 4 v) = drop_bit 4 (unat v)" by (rule unat_drop_bit_eq)
  moreover have "drop_bit 4 (unat v) = unat v div 16" by (simp add: drop_bit_eq_div)
  ultimately have "unat (drop_bit 4 v) < 16" by simp
  then show ?thesis by (rule hextable_nth)
qed

lemma hex_lo: "lower_hex (hextable ! unat ((v::byte) AND 0x0f))"
proof -
  have "v AND 0x0f \<le> 0x0f" by (rule word_and_le1)
  then have "unat (v AND 0x0f) \<le> 15" by (simp add: word_le_nat_alt)
  then have "unat (v AND 0x0f) < 16" by simp
  then show ?thesis by (rule hextable_nth)
qed

lemma canonical_uuid_String: "canonical_form (uuid_String u)"
proof (cases u)
  case (UUID b0 b1 b2 b3 b4 b5 b6 b7 b8 b9 b10 b11 b12 b13 b14 b15)
  show ?thesis
    unfolding UUID uuid_String.simps canonical_form_def
    by (simp add: hex_hi hex_lo)
qed

section \<open>The branches of Read\<close>

lemma Read_decode_error:
  assumes "Config_Get req = (cdiags, model)"
    and "HasError (Append (Diagnostics resp) cdiags)"
  shows "Read d env req resp =
           Inr (resp\<lparr>Diagnostics := Append (Diagnostics resp) cdiags\<rparr>, [])"
  using assms by (simp add: Read_def Let_def)

lemma Read_conflict:
  assumes "Config_Get req = (cdiags, model)"
    and "\<not> HasError (Append (Diagnostics resp) cdiags)"
    and "\<not> IsNull (ID model)" and "\<not> IsNull (Name model)"
  shows "Read d env req resp =
           Inr (resp\<lparr>Diagnostics := Append (Diagnostics resp) cdiags @
                  [Diagnostic SeverityError ''Conflicting workspace lookup keys''
                     ''Workspaces can be identified by their unique name or ID, but not both.''
                     None]\<rparr>, [])"
  using assms by (simp add: Read_def Let_def AddError_new)

lemma Read_account_error:
  assumes "Config_Get req = (cdiags, model)"
    and "\<not> HasError (Append (Diagnostics resp) cdiags)"
    and "IsNull (ID model) \<or> IsNull (Name model)"
    and "resolve_accountID env model = Inl err"
  shows "Read d env req resp =
           Inr (resp\<lparr>Diagnostics := Append (Diagnostics resp) cdiags @
                  [Diagnostic SeverityError ''Error parsing Account ID''
                     (''Could not parse account ID to UUID, unexpected error: '' @ err)
                     (Some (path_Root ''account_id''))]\<rparr>, [])"
  using assms by (auto simp: Read_def Let_def AddAttributeError_new)

lemma Read_nil_client:
  assumes "Config_Get req = (cdiags, model)"
    and "\<not> HasError (Append (Diagnostics resp) cdiags)"
    and "IsNull (ID model) \<or> IsNull (Name model)"
    and "resolve_accountID env model = Inr accountID"
    and "client d = None"
  shows "Read d env req resp = Inl NilPointerDereference"
  using assms by (auto simp: Read_def Let_def)

lemma Read_client_error:
  assumes "Config_Get req = (cdiags, model)"
    and "\<not> HasError (Append (Diagnostics resp) cdiags)"
    and "IsNull (ID model) \<or> IsNull (Name model)"
    and "resolve_accountID env model = Inr accountID"
    and "client d = Some c" and "Workspaces c accountID = Inl err"
  shows "Read d env req resp =
           Inr (resp\<lparr>Diagnostics := Append (Diagnostics resp) cdiags @
                  [Diagnostic SeverityError ''Error creating workspace client''
                     (''Could not create workspace client, unexpected error: '' @ err @
                      ''. This is a bug in the provider, please report this to the maintainers.'')
                     None]\<rparr>,
                [Call_Workspaces accountID])"
  using assms by (auto simp: Read_def Let_def AddError_new)

lemma Read_id_error:
  assumes "Config_Get req = (cdiags, model)"
    and "\<not> HasError (Append (Diagnostics resp) cdiags)"
    and "IsNull (ID model) \<or> IsNull (Name model)"
    and "resolve_accountID env model = Inr accountID"
    and "client d = Some c" and "Workspaces c accountID = Inr wclient"
    and "uuid_Parse env (ValueString (ID model)) = Inl err"
  shows "Read d env req resp =
           Inr (resp\<lparr>Diagnostics := Append (Diagnostics resp) cdiags @
                  [Diagnostic SeverityError ''Error parsing Workspace ID''
                     (''Could not parse workspace ID to UUID, unexpected error: '' @ err)
                     (Some (path_Root ''id''))]\<rparr>,
                [Call_Workspaces accountID])"
  using assms by (auto simp: Read_def Let_def AddAttributeError_new)

lemma Read_get_error:
  assumes "Config_Get req = (cdiags, model)"
    and "\<not> HasError (Append (Diagnostics resp) cdiags)"
    and "IsNull (ID model) \<or> IsNull (Name model)"
    and "resolve_accountID env model = Inr accountID"
    and "client d = Some c" and "Workspaces c accountID = Inr wclient"
    and "uuid_Parse env (ValueString (ID model)) = Inr workspaceID"
    and "Get wclient workspaceID = Inl err"
  shows "Read d env req resp =
           Inr (resp\<lparr>Diagnostics := Append (Diagnostics resp) cdiags @
                  [Diagnostic SeverityError ''Error refreshing workspace state''
                     (''Could not read workspace, unexpected error: '' @ err) None]\<rparr>,
                [Call_Workspaces accountID, Call_Get workspaceID])"
  using assms by (auto simp: Read_def Let_def AddError_new)

lemma Read_got:
  assumes "Config_Get req = (cdiags, model)"
    and "\<not> HasError (Append (Diagnostics resp) cdiags)"
    and "IsNull (ID model) \<or> IsNull (Name model)"
    and "resolve_accountID env model = Inr accountID"
    and "client d = Some c" and "Workspaces c accountID = Inr wclient"
    and "uuid_Parse env (ValueString (ID model)) = Inr workspaceID"
    and "Get wclient workspaceID = Inr workspace"
  shows "Read d env req resp =
           Inr (resp\<lparr>Diagnostics :=
                        Append (Append (Diagnostics resp) cdiags)
                          (State_Set_diags env (populate model workspace)),
                      State :=
                        (if HasError (State_Set_diags env (populate model workspace))
                         then State resp else populate model workspace)\<rparr>,
                [Call_Workspaces accountID, Call_Get workspaceID])"
  using assms by (auto simp: Read_def Let_def State_Set_def)

lemma Read_cases [case_names decode_error conflict account_error nil_client client_error
    id_error get_error got]:
  fixes d :: WorkspaceDataSource and env :: ReadEnv and req :: ReadRequest
    and resp :: ReadResponse
  obtains
    (decode_error) cdiags model where
      "Config_Get req = (cdiags, model)"
      "HasError (Append (Diagnostics resp) cdiags)"
  | (conflict) cdiags model where
      "Config_Get req = (cdiags, model)"
      "\<not> HasError (Append (Diagnostics resp) cdiags)"
      "\<not> IsNull (ID model)" "\<not> IsNull (Name model)"
  | (account_error) cdiags model err where
      "Config_Get req = (cdiags, model)"
      "\<not> HasError (Append (Diagnostics resp) cdiags)"
      "IsNull (ID model) \<or> IsNull (Name model)"
      "resolve_accountID env model = Inl err"
  | (nil_client) cdiags model accountID where
      "Config_Get req = (cdiags, model)"
      "\<not> HasError (Append (Diagnostics resp) cdiags)"
      "IsNull (ID model) \<or> IsNull (Name model)"
      "resolve_accountID env model = Inr accountID"
      "client d = None"
  | (client_error) cdiags model accountID c err where
      "Config_Get req = (cdiags, model)"
      "\<not> HasError (Append (Diagnostics resp) cdiags)"
      "IsNull (ID model) \<or> IsNull (Name model)"
      "resolve_accountID env model = Inr accountID"
      "client d = Some c" "Workspaces c accountID = Inl err"
  | (id_error) cdiags model accountID c wclient err where
      "Config_Get req = (cdiags, model)"
      "\<not> HasError (Append (Diagnostics resp) cdiags)"
      "IsNull (ID model) \<or> IsNull (Name model)"
      "resolve_accountID env model = Inr accountID"
      "client d = Some c" "Workspaces c accountID = Inr wclient"
      "uuid_Parse env (ValueString (ID model)) = Inl err"
  | (get_error) cdiags model accountID c wclient workspaceID err where
      "Config_Get req = (cdiags, model)"
      "\<not> HasError (Append (Diagnostics resp) cdiags)"
      "IsNull (ID model) \<or> IsNull (Name model)"
      "resolve_accountID env model = Inr accountID"
      "client d = Some c" "Workspaces c accountID = Inr wclient"
      "uuid_Parse env (ValueString (ID model)) = Inr workspaceID"
      "Get wclient workspaceID = Inl err"
  | (got) cdiags model accountID c wclient workspaceID workspace where
      "Config_Get req = (cdiags, model)"
      "\<not> HasError (Append (Diagnostics resp) cdiags)"
      "IsNull (ID model) \<or> IsNull (Name model)"
      "resolve_accountID env model = Inr accountID"
      "client d = Some c" "Workspaces c accountID = Inr wclient"
      "uuid_Parse env (ValueString (ID model)) = Inr workspaceID"
      "Get wclient workspaceID = Inr workspace"
proof -
  obtain cdiags model where cfg: "Config_Get req = (cdiags, model)"
    by (cases "Config_Get req")
  show thesis
  proof (cases "HasError (Append (Diagnostics resp) cdiags)")
    case True
    with cfg show thesis by (rule decode_error)
  next
    case ok: False
    show thesis
    proof (cases "IsNull (ID model) \<or> IsNull (Name model)")
      case False
      with cfg ok show thesis using conflict by blast
    next
      case keys: True
      show thesis
      proof (cases "resolve_accountID env model")
        case (Inl err)
        with cfg ok keys show thesis by (rule account_error)
      next
        case acct: (Inr accountID)
        show thesis
        proof (cases "client d")
          case None
          with cfg ok keys acct show thesis by (rule nil_client)
        next
          case c: (Some c)
          show thesis
          proof (cases "Workspaces c accountID")
            case (Inl err)
            with cfg ok keys acct c show thesis by (rule client_error)
          next
            case wc: (Inr wclient)
            show thesis
            proof (cases "uuid_Parse env (ValueString (ID model))")
              case (Inl err)
              with cfg ok keys acct c wc show thesis by (rule id_error)
            next
              case wid: (Inr workspaceID)
              show thesis
              proof (cases "Get wclient workspaceID")
                case (Inl err)
                with cfg ok keys acct c wc wid show thesis by (rule get_error)
              next
                case (Inr workspace)
                with cfg ok keys acct c wc wid show thesis by (rule got)
              qed
            qed
          qed
        qed
      qed
    qed
  qed
qed

text \<open>
  A read that ends with no error diagnostic went all the way: it called \<open>Workspaces\<close>
  and \<open>Get\<close>, and stored the populated model.
\<close>

lemma Read_success:
  assumes run: "Read d env req resp = Inr (resp', calls)"
    and ok: "\<not> HasError (Diagnostics resp')"
  shows "\<exists>c accountID wclient workspaceID workspace.
           client d = Some c \<and> Workspaces c accountID = Inr wclient \<and>
           uuid_Parse env (ValueString (ID (snd (Config_Get req)))) = Inr workspaceID \<and>
           Get wclient workspaceID = Inr workspace \<and>
           calls = [Call_Workspaces accountID, Call_Get workspaceID] \<and>
           State resp' = populate (snd (Config_Get req)) workspace"
proof (cases rule: Read_cases [where req = req and resp = resp and env = env and d = d])
  case (decode_error cdiags model)
  from Read_decode_error [OF this] run ok decode_error(2) show ?thesis by auto
next
  case (conflict cdiags model)
  from Read_conflict [OF this] run ok show ?thesis by (auto simp: HasError_snoc)
next
  case (account_error cdiags model err)
  from Read_account_error [OF this] run ok show ?thesis by (auto simp: HasError_snoc)
next
  case (nil_client cdiags model accountID)
  from Read_nil_client [OF this] run show ?thesis by simp
next
  case (client_error cdiags model accountID c err)
  from Read_client_error [OF this] run ok show ?thesis by (auto simp: HasError_snoc)
next
  case (id_error cdiags model accountID c wclient err)
  from Read_id_error [OF this] run ok show ?thesis by (auto simp: HasError_snoc)
next
  case (get_error cdiags model accountID c wclient workspaceID err)
  from Read_get_error [OF this] run ok show ?thesis by (auto simp: HasError_snoc)
next
  case (got cdiags model accountID c wclient workspaceID workspace)
  from Read_got [OF this] run ok
  have "calls = [Call_Workspaces accountID, Call_Get workspaceID]"
    and "State resp' = populate model workspace"
    by (auto simp: HasError_Append)
  with got show ?thesis by (intro exI [of _ c] exI [of _ accountID] exI [of _ wclient]
      exI [of _ workspaceID] exI [of _ workspace]) simp
qed

section \<open>Configure\<close>

text \<open>
  C10: when the provider data is nil, \<open>Configure\<close> returns at once: the response, and so
  its diagnostics, and the data source with its client field are what they were.
\<close>

theorem Configure_nil_is_noop:
  "Configure d ProviderData_nil resp = (d, resp)"
  by (simp add: Configure_def)

theorem Configure_nil_is_noop_witness:
  "Configure \<lparr>client = Some (stub_client prod_workspace)\<rparr> ProviderData_nil
     \<lparr>Configure_Diagnostics = []\<rparr> =
   (\<lparr>client = Some (stub_client prod_workspace)\<rparr>, \<lparr>Configure_Diagnostics = []\<rparr>)"
  by (rule Configure_nil_is_noop)

text \<open>
  C7: when the provider data is not nil and not a \<open>PrefectClient\<close>, \<open>Configure\<close> returns
  the data source as it was, client field included, and the response holds an error
  diagnostic that names the type received and asks for a report to the provider
  developers: appended to the diagnostics, unless it was among them already.
\<close>

theorem Configure_unexpected_type:
  "\<exists>resp'. Configure d (ProviderData_other tname) resp = (d, resp') \<and>
     HasError (Configure_Diagnostics resp') \<and>
     Configure_Diagnostics resp' =
       (if Diagnostic SeverityError ''Unexpected Data Source Configure Type''
             (''Expected api.PrefectClient, got: '' @ tname @
              ''. Please report this issue to the provider developers.'') None
           \<in> set (Configure_Diagnostics resp)
        then Configure_Diagnostics resp
        else Configure_Diagnostics resp @
          [Diagnostic SeverityError ''Unexpected Data Source Configure Type''
             (''Expected api.PrefectClient, got: '' @ tname @
              ''. Please report this issue to the provider developers.'') None])"
proof -
  let ?diag = "Diagnostic SeverityError ''Unexpected Data Source Configure Type''
     (''Expected api.PrefectClient, got: '' @ tname @
      ''. Please report this issue to the provider developers.'') None"
  let ?out = "AddError (Configure_Diagnostics resp) ''Unexpected Data Source Configure Type''
     (''Expected api.PrefectClient, got: '' @ tname @
      ''. Please report this issue to the provider developers.'')"
  have run: "Configure d (ProviderData_other tname) resp =
      (d, resp\<lparr>Configure_Diagnostics := ?out\<rparr>)"
    by (simp add: Configure_def)
  have err: "HasError ?out"
    by (simp only: AddError_def HasError_Append) (simp add: HasError_def)
  have out: "?out = (if ?diag \<in> set (Configure_Diagnostics resp)
      then Configure_Diagnostics resp else Configure_Diagnostics resp @ [?diag])"
    by (simp add: AddError_def)
  from run err out show ?thesis by simp
qed

theorem Configure_unexpected_type_witness:
  "Configure NewWorkspaceDataSource (ProviderData_other ''string'')
     \<lparr>Configure_Diagnostics = []\<rparr> =
   (NewWorkspaceDataSource,
    \<lparr>Configure_Diagnostics =
       [Diagnostic SeverityError ''Unexpected Data Source Configure Type''
          ''Expected api.PrefectClient, got: string. Please report this issue to the provider developers.''
          None]\<rparr>)"
  using Configure_unexpected_type [of NewWorkspaceDataSource "''string''"
      "\<lparr>Configure_Diagnostics = []\<rparr>"]
  by auto

section \<open>Read: validation\<close>

text \<open>
  C1, as amended: when the decoded configuration has both \<open>id\<close> and \<open>name\<close> non-null,
  \<open>Read\<close> returns with an empty list of calls, so neither \<open>Workspaces\<close> nor \<open>Get\<close>
  was called, and with the state untouched; and when the response holds no error
  diagnostic once the configuration is decoded, none there before the read and none
  reported by decoding, what \<open>Read\<close> adds to the diagnostics is the error "Conflicting
  workspace lookup keys". An \<open>id\<close> that is the empty string is non-null, so this
  covers it.
\<close>

theorem Read_conflicting_lookup_keys:
  assumes "Config_Get req = (cdiags, model)"
    and "\<not> IsNull (ID model)" and "\<not> IsNull (Name model)"
  shows "\<exists>resp'. Read d env req resp = Inr (resp', []) \<and> State resp' = State resp \<and>
           (\<not> HasError (Append (Diagnostics resp) cdiags) \<longrightarrow>
              Diagnostics resp' = Append (Diagnostics resp) cdiags @
                [Diagnostic SeverityError ''Conflicting workspace lookup keys''
                   ''Workspaces can be identified by their unique name or ID, but not both.''
                   None])"
proof (cases "HasError (Append (Diagnostics resp) cdiags)")
  case True
  from Read_decode_error [OF assms(1) True] True show ?thesis by simp
next
  case False
  from Read_conflict [OF assms(1) False assms(2,3)] show ?thesis by simp
qed

theorem Read_conflicting_lookup_keys_witness:
  "Read \<lparr>client = Some (stub_client prod_workspace)\<rparr> stub_env
     (request (config (StringValue []) StringNull (StringValue ''prod'')))
     (response (config (StringValue []) StringNull (StringValue ''prod''))) =
   Inr (\<lparr>Diagnostics =
           [Diagnostic SeverityError ''Conflicting workspace lookup keys''
              ''Workspaces can be identified by their unique name or ID, but not both.'' None],
         State = config (StringValue []) StringNull (StringValue ''prod'')\<rparr>, [])"
  using Read_conflicting_lookup_keys [of
      "request (config (StringValue []) StringNull (StringValue ''prod''))" "[]"
      "config (StringValue []) StringNull (StringValue ''prod'')"
      "\<lparr>client = Some (stub_client prod_workspace)\<rparr>" stub_env
      "response (config (StringValue []) StringNull (StringValue ''prod''))"]
  by (auto simp: request_def response_def config_def HasError_def)

text \<open>
  C1, as stated, fails where the response holds an error diagnostic once the
  configuration is decoded: \<open>Read\<close> returns on it, before it looks at the lookup keys.
  With \<open>id\<close> the empty string and \<open>name\<close> prod, the diagnostics of the read are the
  earlier error alone when the response held one, and the decoding error alone when
  decoding reported one; the error on the lookup keys is not among them.
\<close>

theorem Read_conflicting_lookup_keys_counterexample:
  "Read \<lparr>client = Some (stub_client prod_workspace)\<rparr> stub_env
     (request (config (StringValue []) StringNull (StringValue ''prod'')))
     (failed_response (config (StringValue []) StringNull (StringValue ''prod''))) =
   Inr (\<lparr>Diagnostics = [earlier_error],
         State = config (StringValue []) StringNull (StringValue ''prod'')\<rparr>, []) \<and>
   Read \<lparr>client = Some (stub_client prod_workspace)\<rparr> stub_env
     (failing_request (config (StringValue []) StringNull (StringValue ''prod'')))
     (response (config (StringValue []) StringNull (StringValue ''prod''))) =
   Inr (\<lparr>Diagnostics = [decode_failure],
         State = config (StringValue []) StringNull (StringValue ''prod'')\<rparr>, []) \<and>
   earlier_error \<noteq>
     Diagnostic SeverityError ''Conflicting workspace lookup keys''
       ''Workspaces can be identified by their unique name or ID, but not both.'' None \<and>
   decode_failure \<noteq>
     Diagnostic SeverityError ''Conflicting workspace lookup keys''
       ''Workspaces can be identified by their unique name or ID, but not both.'' None"
  by (simp add: Read_def request_def failing_request_def response_def failed_response_def
      config_def earlier_error_def decode_failure_def HasError_def)

text \<open>
  C4, as amended: when the response holds no error diagnostic once the configuration is
  decoded, none there before the read and none reported by decoding, when \<open>id\<close> and
  \<open>name\<close> are not both non-null, and when the account ID is non-null, non-empty and
  refused by the parser, \<open>Read\<close> adds one diagnostic, an error on the path
  \<open>account_id\<close> that carries the parser's text, and returns with no call made and the
  state untouched.
\<close>

theorem Read_malformed_account_id:
  assumes "Config_Get req = (cdiags, model)"
    and "\<not> HasError (Append (Diagnostics resp) cdiags)"
    and "IsNull (ID model) \<or> IsNull (Name model)"
    and "\<not> IsNull (AccountID model)" and "ValueString (AccountID model) \<noteq> []"
    and "uuid_Parse env (ValueString (AccountID model)) = Inl err"
  shows "Read d env req resp =
           Inr (resp\<lparr>Diagnostics := Append (Diagnostics resp) cdiags @
                  [Diagnostic SeverityError ''Error parsing Account ID''
                     (''Could not parse account ID to UUID, unexpected error: '' @ err)
                     (Some (path_Root ''account_id''))]\<rparr>, [])"
proof -
  from assms(4-6) have "resolve_accountID env model = Inl err"
    by (simp add: resolve_accountID_def)
  with assms(1-3) show ?thesis by (rule Read_account_error)
qed

theorem Read_malformed_account_id_witness:
  "Read NewWorkspaceDataSource stub_env
     (request (config (StringValue ''11111111-1111-1111-1111-111111111111'')
        (StringValue ''not-a-uuid'') StringNull))
     (response (config (StringValue ''11111111-1111-1111-1111-111111111111'')
        (StringValue ''not-a-uuid'') StringNull)) =
   Inr (\<lparr>Diagnostics =
           [Diagnostic SeverityError ''Error parsing Account ID''
              ''Could not parse account ID to UUID, unexpected error: invalid UUID length: 10''
              (Some [''account_id''])],
         State = config (StringValue ''11111111-1111-1111-1111-111111111111'')
           (StringValue ''not-a-uuid'') StringNull\<rparr>, [])"
  using Read_malformed_account_id [of
      "request (config (StringValue ''11111111-1111-1111-1111-111111111111'')
         (StringValue ''not-a-uuid'') StringNull)" "[]"
      "config (StringValue ''11111111-1111-1111-1111-111111111111'')
         (StringValue ''not-a-uuid'') StringNull"
      "response (config (StringValue ''11111111-1111-1111-1111-111111111111'')
         (StringValue ''not-a-uuid'') StringNull)"
      stub_env "''invalid UUID length: 10''" NewWorkspaceDataSource]
  by (simp add: request_def response_def config_def stub_env_def stub_Parse_def
      HasError_def path_Root_def)

text \<open>
  C4, as stated, fails on each of three reads whose account ID, \<open>not-a-uuid\<close>, is one
  the parser refuses. Where \<open>id\<close> and \<open>name\<close> are both set, the one diagnostic is the
  generic error on the lookup keys. Where the response held an error before the read,
  the earlier error is the one diagnostic. Where decoding reported an error, the
  decoding error is the one diagnostic. None of the three has an attribute path.
\<close>

theorem Read_malformed_account_id_counterexample:
  "stub_Parse ''not-a-uuid'' = Inl ''invalid UUID length: 10'' \<and>
   Read NewWorkspaceDataSource stub_env
     (request (config (StringValue []) (StringValue ''not-a-uuid'') (StringValue ''prod'')))
     (response (config (StringValue []) (StringValue ''not-a-uuid'') (StringValue ''prod''))) =
   Inr (\<lparr>Diagnostics =
           [Diagnostic SeverityError ''Conflicting workspace lookup keys''
              ''Workspaces can be identified by their unique name or ID, but not both.'' None],
         State = config (StringValue []) (StringValue ''not-a-uuid'') (StringValue ''prod'')\<rparr>,
        []) \<and>
   Read NewWorkspaceDataSource stub_env
     (request (config (StringValue ''11111111-1111-1111-1111-111111111111'')
        (StringValue ''not-a-uuid'') StringNull))
     (failed_response (config (StringValue ''11111111-1111-1111-1111-111111111111'')
        (StringValue ''not-a-uuid'') StringNull)) =
   Inr (\<lparr>Diagnostics = [earlier_error],
         State = config (StringValue ''11111111-1111-1111-1111-111111111111'')
           (StringValue ''not-a-uuid'') StringNull\<rparr>, []) \<and>
   Read NewWorkspaceDataSource stub_env
     (failing_request (config (StringValue ''11111111-1111-1111-1111-111111111111'')
        (StringValue ''not-a-uuid'') StringNull))
     (response (config (StringValue ''11111111-1111-1111-1111-111111111111'')
        (StringValue ''not-a-uuid'') StringNull)) =
   Inr (\<lparr>Diagnostics = [decode_failure],
         State = config (StringValue ''11111111-1111-1111-1111-111111111111'')
           (StringValue ''not-a-uuid'') StringNull\<rparr>, []) \<and>
   AttrPath earlier_error = None \<and> AttrPath decode_failure = None"
  by (simp add: Read_def request_def failing_request_def response_def failed_response_def
      config_def stub_env_def stub_Parse_def earlier_error_def decode_failure_def
      HasError_def AddError_def)



section \<open>Read: the remote call\<close>

text \<open>
  C3: when the \<open>Get\<close> that \<open>Read\<close> called returned an error, the calls of the read are
  one \<open>Workspaces\<close> and one \<open>Get\<close>, the state is what it was, and the diagnostics are
  those of decoding followed by one error, "Error refreshing workspace state", whose
  detail ends with the text of the error: the only error-severity diagnostic there is.
\<close>

theorem Read_get_failure:
  assumes run: "Read d env req resp = Inr (resp', calls)"
    and c: "client d = Some c"
    and cw: "Call_Workspaces accountID \<in> set calls"
    and wc: "Workspaces c accountID = Inr wclient"
    and cg: "Call_Get workspaceID \<in> set calls"
    and err: "Get wclient workspaceID = Inl err"
  shows "calls = [Call_Workspaces accountID, Call_Get workspaceID] \<and>
         State resp' = State resp \<and>
         Diagnostics resp' = Append (Diagnostics resp) (fst (Config_Get req)) @
           [Diagnostic SeverityError ''Error refreshing workspace state''
              (''Could not read workspace, unexpected error: '' @ err) None] \<and>
         filter (\<lambda>d. Severity d = SeverityError) (Diagnostics resp') =
           [Diagnostic SeverityError ''Error refreshing workspace state''
              (''Could not read workspace, unexpected error: '' @ err) None]"
proof (cases rule: Read_cases [where req = req and resp = resp and env = env and d = d])
  case (decode_error cdiags model)
  from Read_decode_error [OF this] run cg show ?thesis by simp
next
  case (conflict cdiags model)
  from Read_conflict [OF this] run cg show ?thesis by simp
next
  case (account_error cdiags model e)
  from Read_account_error [OF this] run cg show ?thesis by simp
next
  case (nil_client cdiags model a)
  from Read_nil_client [OF this] run show ?thesis by simp
next
  case (client_error cdiags model a c' e)
  from Read_client_error [OF this] run cg show ?thesis by auto
next
  case (id_error cdiags model a c' w e)
  from Read_id_error [OF this] run cg show ?thesis by auto
next
  case (get_error cdiags model a c' w i e)
  from Read_get_error [OF this] run
  have calls: "calls = [Call_Workspaces a, Call_Get i]"
    and resp': "resp' = resp\<lparr>Diagnostics := Append (Diagnostics resp) cdiags @
                  [Diagnostic SeverityError ''Error refreshing workspace state''
                     (''Could not read workspace, unexpected error: '' @ e) None]\<rparr>"
    by simp_all
  from calls cw cg have "a = accountID" and "i = workspaceID" by auto
  with get_error c wc err have "c' = c" and "w = wclient" and "e = err" by auto
  with calls resp' \<open>a = accountID\<close> \<open>i = workspaceID\<close> get_error(1,2)
  show ?thesis by (simp add: no_errors_filter)
next
  case (got cdiags model a c' w i ws)
  from Read_got [OF this] run
  have calls: "calls = [Call_Workspaces a, Call_Get i]" by simp
  from calls cw cg have "a = accountID" and "i = workspaceID" by auto
  with got c wc err show ?thesis by auto
qed

theorem Read_get_failure_witness:
  "Read \<lparr>client = Some (stub_client prod_workspace)\<rparr> stub_env
     (request (config (StringValue ''ABABABAB-ABAB-ABAB-ABAB-ABABABABABAB'') StringNull StringNull))
     (response (config (StringValue ''ABABABAB-ABAB-ABAB-ABAB-ABABABABABAB'') StringNull
        StringNull)) =
   Inr (\<lparr>Diagnostics =
           [Diagnostic SeverityError ''Error refreshing workspace state''
              ''Could not read workspace, unexpected error: status code 404 Not Found'' None],
         State = config (StringValue ''ABABABAB-ABAB-ABAB-ABAB-ABABABABABAB'') StringNull
           StringNull\<rparr>,
        [Call_Workspaces uuid_Nil, Call_Get ab_id]) \<and>
   filter (\<lambda>d. Severity d = SeverityError)
     [Diagnostic SeverityError ''Error refreshing workspace state''
        ''Could not read workspace, unexpected error: status code 404 Not Found'' None] =
     [Diagnostic SeverityError ''Error refreshing workspace state''
        ''Could not read workspace, unexpected error: status code 404 Not Found'' None]"
proof -
  let ?cfg = "config (StringValue ''ABABABAB-ABAB-ABAB-ABAB-ABABABABABAB'') StringNull StringNull"
  let ?resp' = "\<lparr>Diagnostics =
           [Diagnostic SeverityError ''Error refreshing workspace state''
              ''Could not read workspace, unexpected error: status code 404 Not Found'' None],
         State = ?cfg\<rparr>"
  have run: "Read \<lparr>client = Some (stub_client prod_workspace)\<rparr> stub_env (request ?cfg)
      (response ?cfg) = Inr (?resp', [Call_Workspaces uuid_Nil, Call_Get ab_id])"
    by (simp add: Read_def request_def response_def config_def stub_env_def stub_Parse_def
        stub_client_def stub_workspaces_client_def prod_workspace_def prod_id_def ab_id_def
        resolve_accountID_def HasError_def AddError_def)
  have c: "client \<lparr>client = Some (stub_client prod_workspace)\<rparr> =
      Some (stub_client prod_workspace)"
    by simp
  have wc: "Workspaces (stub_client prod_workspace) uuid_Nil =
      Inr (stub_workspaces_client prod_workspace)"
    by (simp add: stub_client_def)
  have err: "Get (stub_workspaces_client prod_workspace) ab_id = Inl ''status code 404 Not Found''"
    by (simp add: stub_workspaces_client_def prod_workspace_def prod_id_def ab_id_def)
  from Read_get_failure [OF run c _ wc _ err] run show ?thesis by simp
qed

section \<open>Read: the stored model\<close>

text \<open>
  C2: after a read that ends with no error diagnostic, the stored \<open>created\<close>,
  \<open>updated\<close> and \<open>description\<close> follow the workspace that \<open>Get\<close> returned: null where
  its field is nil, the RFC 3339 text of the time where a timestamp is set, the string
  itself where the description is set; so no absent field is stored as the empty string.
  The witness is the workspace prod of the claim: \<open>description\<close> and \<open>updated\<close> null,
  \<open>created\<close> 2023-01-01T00:00:00Z.
\<close>

theorem Read_nullable_fields:
  assumes run: "Read d env req resp = Inr (resp', calls)"
    and ok: "\<not> HasError (Diagnostics resp')"
  shows "\<exists>c accountID wclient workspaceID workspace.
           client d = Some c \<and> Workspaces c accountID = Inr wclient \<and>
           Get wclient workspaceID = Inr workspace \<and>
           calls = [Call_Workspaces accountID, Call_Get workspaceID] \<and>
           Created (State resp') =
             (case Workspace_Created workspace of
                None \<Rightarrow> StringNull | Some t \<Rightarrow> StringValue (Format_RFC3339 t)) \<and>
           Updated (State resp') =
             (case Workspace_Updated workspace of
                None \<Rightarrow> StringNull | Some t \<Rightarrow> StringValue (Format_RFC3339 t)) \<and>
           Description (State resp') =
             (case Workspace_Description workspace of
                None \<Rightarrow> StringNull | Some s \<Rightarrow> StringValue s) \<and>
           (Workspace_Created workspace = None \<longrightarrow> Created (State resp') \<noteq> StringValue []) \<and>
           (Workspace_Updated workspace = None \<longrightarrow> Updated (State resp') \<noteq> StringValue []) \<and>
           (Workspace_Description workspace = None \<longrightarrow>
              Description (State resp') \<noteq> StringValue [])"
proof -
  from Read_success [OF run ok] obtain c accountID wclient workspaceID workspace where
    path: "client d = Some c" "Workspaces c accountID = Inr wclient"
      "Get wclient workspaceID = Inr workspace"
      "calls = [Call_Workspaces accountID, Call_Get workspaceID]"
    and st: "State resp' = populate (snd (Config_Get req)) workspace"
    by blast
  from st have "Created (State resp') =
        (case Workspace_Created workspace of
           None \<Rightarrow> StringNull | Some t \<Rightarrow> StringValue (Format_RFC3339 t))"
    and "Updated (State resp') =
        (case Workspace_Updated workspace of
           None \<Rightarrow> StringNull | Some t \<Rightarrow> StringValue (Format_RFC3339 t))"
    and "Description (State resp') =
        (case Workspace_Description workspace of
           None \<Rightarrow> StringNull | Some s \<Rightarrow> StringValue s)"
    by (simp_all add: populate_def split: option.split)
  with path show ?thesis
    by (intro exI [of _ c] exI [of _ accountID] exI [of _ wclient] exI [of _ workspaceID]
        exI [of _ workspace]) simp
qed

theorem Read_nullable_fields_witness:
  "\<exists>resp' calls.
     Read \<lparr>client = Some (stub_client prod_workspace)\<rparr> stub_env
       (request (config (StringValue ''11111111-1111-1111-1111-111111111111'') StringNull
          StringNull))
       (response (config (StringValue ''11111111-1111-1111-1111-111111111111'') StringNull
          StringNull)) = Inr (resp', calls) \<and>
     \<not> HasError (Diagnostics resp') \<and>
     Description (State resp') = StringNull \<and>
     Updated (State resp') = StringNull \<and>
     Created (State resp') = StringValue ''2023-01-01T00:00:00Z''"
proof -
  let ?cfg = "config (StringValue ''11111111-1111-1111-1111-111111111111'') StringNull StringNull"
  let ?d = "\<lparr>client = Some (stub_client prod_workspace)\<rparr>"
  obtain resp' calls where run: "Read ?d stub_env (request ?cfg) (response ?cfg) = Inr (resp', calls)"
    and ok: "\<not> HasError (Diagnostics resp')"
    by (simp add: Read_def request_def response_def config_def stub_env_def stub_Parse_def
        stub_client_def stub_workspaces_client_def prod_workspace_def prod_id_def
        resolve_accountID_def State_Set_def HasError_def)
  from Read_nullable_fields [OF run ok] obtain c accountID wclient workspaceID workspace where
    c: "client ?d = Some c"
    and wc: "Workspaces c accountID = Inr wclient"
    and ws: "Get wclient workspaceID = Inr workspace"
    and created: "Created (State resp') =
        (case Workspace_Created workspace of
           None \<Rightarrow> StringNull | Some t \<Rightarrow> StringValue (Format_RFC3339 t))"
    and updated: "Updated (State resp') =
        (case Workspace_Updated workspace of
           None \<Rightarrow> StringNull | Some t \<Rightarrow> StringValue (Format_RFC3339 t))"
    and description: "Description (State resp') =
        (case Workspace_Description workspace of
           None \<Rightarrow> StringNull | Some s \<Rightarrow> StringValue s)"
    by blast
  from c wc ws have "workspace = prod_workspace"
    by (auto simp: stub_client_def stub_workspaces_client_def split: if_splits)
  with created updated description
  have "Created (State resp') = StringValue ''2023-01-01T00:00:00Z''"
    and "Updated (State resp') = StringNull" and "Description (State resp') = StringNull"
    by (simp_all add: prod_workspace_def Format_RFC3339_def appendInt_def)
  with run ok show ?thesis by blast
qed

text \<open>
  C6: after a read that ends with no error diagnostic, the stored model repeats the
  workspace that \<open>Get\<close> returned for the parsed ID, field by field: \<open>id\<close> is the text
  of its UUID, \<open>name\<close> and \<open>handle\<close> its strings, \<open>description\<close> its description,
  \<open>created\<close> and \<open>updated\<close> its timestamps in RFC 3339.
\<close>

theorem Read_reproduces_workspace:
  assumes run: "Read d env req resp = Inr (resp', calls)"
    and ok: "\<not> HasError (Diagnostics resp')"
  shows "\<exists>c accountID wclient workspaceID workspace.
           client d = Some c \<and> Workspaces c accountID = Inr wclient \<and>
           uuid_Parse env (ValueString (ID (snd (Config_Get req)))) = Inr workspaceID \<and>
           Get wclient workspaceID = Inr workspace \<and>
           calls = [Call_Workspaces accountID, Call_Get workspaceID] \<and>
           ID (State resp') = StringValue (uuid_String (Workspace_ID workspace)) \<and>
           Name (State resp') = StringValue (Workspace_Name workspace) \<and>
           Handle (State resp') = StringValue (Workspace_Handle workspace) \<and>
           Description (State resp') = StringPointerValue (Workspace_Description workspace) \<and>
           Created (State resp') =
             (case Workspace_Created workspace of
                None \<Rightarrow> StringNull | Some t \<Rightarrow> StringValue (Format_RFC3339 t)) \<and>
           Updated (State resp') =
             (case Workspace_Updated workspace of
                None \<Rightarrow> StringNull | Some t \<Rightarrow> StringValue (Format_RFC3339 t))"
proof -
  from Read_success [OF run ok] obtain c accountID wclient workspaceID workspace where
    path: "client d = Some c" "Workspaces c accountID = Inr wclient"
      "uuid_Parse env (ValueString (ID (snd (Config_Get req)))) = Inr workspaceID"
      "Get wclient workspaceID = Inr workspace"
      "calls = [Call_Workspaces accountID, Call_Get workspaceID]"
    and st: "State resp' = populate (snd (Config_Get req)) workspace"
    by blast
  from st have "ID (State resp') = StringValue (uuid_String (Workspace_ID workspace))"
    and "Name (State resp') = StringValue (Workspace_Name workspace)"
    and "Handle (State resp') = StringValue (Workspace_Handle workspace)"
    and "Description (State resp') = StringPointerValue (Workspace_Description workspace)"
    and "Created (State resp') =
        (case Workspace_Created workspace of
           None \<Rightarrow> StringNull | Some t \<Rightarrow> StringValue (Format_RFC3339 t))"
    and "Updated (State resp') =
        (case Workspace_Updated workspace of
           None \<Rightarrow> StringNull | Some t \<Rightarrow> StringValue (Format_RFC3339 t))"
    by (simp_all add: populate_def)
  with path show ?thesis
    by (intro exI [of _ c] exI [of _ accountID] exI [of _ wclient] exI [of _ workspaceID]
        exI [of _ workspace]) simp
qed

theorem Read_reproduces_workspace_witness:
  "\<exists>resp' calls.
     Read \<lparr>client = Some (stub_client prod_workspace)\<rparr> stub_env
       (request (config (StringValue ''11111111-1111-1111-1111-111111111111'') StringNull
          StringNull))
       (response (config (StringValue ''11111111-1111-1111-1111-111111111111'') StringNull
          StringNull)) = Inr (resp', calls) \<and>
     \<not> HasError (Diagnostics resp') \<and>
     ID (State resp') = StringValue ''11111111-1111-1111-1111-111111111111'' \<and>
     Name (State resp') = StringValue ''prod'' \<and>
     Handle (State resp') = StringValue ''prod-handle'' \<and>
     Description (State resp') = StringNull \<and>
     Created (State resp') = StringValue ''2023-01-01T00:00:00Z'' \<and>
     Updated (State resp') = StringNull"
proof -
  let ?cfg = "config (StringValue ''11111111-1111-1111-1111-111111111111'') StringNull StringNull"
  let ?d = "\<lparr>client = Some (stub_client prod_workspace)\<rparr>"
  obtain resp' calls where run: "Read ?d stub_env (request ?cfg) (response ?cfg) = Inr (resp', calls)"
    and ok: "\<not> HasError (Diagnostics resp')"
    by (simp add: Read_def request_def response_def config_def stub_env_def stub_Parse_def
        stub_client_def stub_workspaces_client_def prod_workspace_def prod_id_def
        resolve_accountID_def State_Set_def HasError_def)
  from Read_reproduces_workspace [OF run ok]
  obtain c accountID wclient workspaceID workspace where
    c: "client ?d = Some c"
    and wc: "Workspaces c accountID = Inr wclient"
    and ws: "Get wclient workspaceID = Inr workspace"
    and fields: "ID (State resp') = StringValue (uuid_String (Workspace_ID workspace))"
      "Name (State resp') = StringValue (Workspace_Name workspace)"
      "Handle (State resp') = StringValue (Workspace_Handle workspace)"
      "Description (State resp') = StringPointerValue (Workspace_Description workspace)"
      "Created (State resp') =
        (case Workspace_Created workspace of
           None \<Rightarrow> StringNull | Some t \<Rightarrow> StringValue (Format_RFC3339 t))"
      "Updated (State resp') =
        (case Workspace_Updated workspace of
           None \<Rightarrow> StringNull | Some t \<Rightarrow> StringValue (Format_RFC3339 t))"
    by blast
  from c wc ws have "workspace = prod_workspace"
    by (auto simp: stub_client_def stub_workspaces_client_def split: if_splits)
  with fields
  have "ID (State resp') = StringValue ''11111111-1111-1111-1111-111111111111''"
    and "Name (State resp') = StringValue ''prod''"
    and "Handle (State resp') = StringValue ''prod-handle''"
    and "Description (State resp') = StringNull"
    and "Created (State resp') = StringValue ''2023-01-01T00:00:00Z''"
    and "Updated (State resp') = StringNull"
    by (simp_all add: prod_workspace_def prod_id_def hextable_def Format_RFC3339_def
        appendInt_def)
  with run ok show ?thesis by blast
qed

text \<open>
  C8: after a read that ends with no error diagnostic, a description that is set to the
  empty string is stored as the known empty string, which is not null; null is what a
  nil description is stored as, and nothing else is.
\<close>

theorem Read_empty_description:
  assumes run: "Read d env req resp = Inr (resp', calls)"
    and ok: "\<not> HasError (Diagnostics resp')"
  shows "\<exists>c accountID wclient workspaceID workspace.
           client d = Some c \<and> Workspaces c accountID = Inr wclient \<and>
           Get wclient workspaceID = Inr workspace \<and>
           calls = [Call_Workspaces accountID, Call_Get workspaceID] \<and>
           (Workspace_Description workspace = Some [] \<longrightarrow>
              Description (State resp') = StringValue [] \<and>
              \<not> IsNull (Description (State resp'))) \<and>
           (IsNull (Description (State resp')) \<longleftrightarrow> Workspace_Description workspace = None)"
proof -
  from Read_success [OF run ok] obtain c accountID wclient workspaceID workspace where
    path: "client d = Some c" "Workspaces c accountID = Inr wclient"
      "Get wclient workspaceID = Inr workspace"
      "calls = [Call_Workspaces accountID, Call_Get workspaceID]"
    and st: "State resp' = populate (snd (Config_Get req)) workspace"
    by blast
  from st have "Description (State resp') = StringPointerValue (Workspace_Description workspace)"
    by (simp add: populate_def)
  then have "Workspace_Description workspace = Some [] \<longrightarrow>
      Description (State resp') = StringValue [] \<and> \<not> IsNull (Description (State resp'))"
    and "IsNull (Description (State resp')) \<longleftrightarrow> Workspace_Description workspace = None"
    by (cases "Workspace_Description workspace"; simp)+
  with path show ?thesis
    by (intro exI [of _ c] exI [of _ accountID] exI [of _ wclient] exI [of _ workspaceID]
        exI [of _ workspace]) simp
qed

theorem Read_empty_description_witness:
  "\<exists>resp' calls.
     Read \<lparr>client = Some (stub_client blank_workspace)\<rparr> stub_env
       (request (config (StringValue ''11111111-1111-1111-1111-111111111111'') StringNull
          StringNull))
       (response (config (StringValue ''11111111-1111-1111-1111-111111111111'') StringNull
          StringNull)) = Inr (resp', calls) \<and>
     \<not> HasError (Diagnostics resp') \<and>
     Description (State resp') = StringValue [] \<and>
     \<not> IsNull (Description (State resp'))"
proof -
  let ?cfg = "config (StringValue ''11111111-1111-1111-1111-111111111111'') StringNull StringNull"
  let ?d = "\<lparr>client = Some (stub_client blank_workspace)\<rparr>"
  obtain resp' calls where run: "Read ?d stub_env (request ?cfg) (response ?cfg) = Inr (resp', calls)"
    and ok: "\<not> HasError (Diagnostics resp')"
    by (simp add: Read_def request_def response_def config_def stub_env_def stub_Parse_def
        stub_client_def stub_workspaces_client_def blank_workspace_def prod_workspace_def
        prod_id_def resolve_accountID_def State_Set_def HasError_def)
  from Read_empty_description [OF run ok]
  obtain c accountID wclient workspaceID workspace where
    c: "client ?d = Some c"
    and wc: "Workspaces c accountID = Inr wclient"
    and ws: "Get wclient workspaceID = Inr workspace"
    and empty: "Workspace_Description workspace = Some [] \<longrightarrow>
        Description (State resp') = StringValue [] \<and> \<not> IsNull (Description (State resp'))"
    by blast
  from c wc ws have "workspace = blank_workspace"
    by (auto simp: stub_client_def stub_workspaces_client_def split: if_splits)
  with empty have "Description (State resp') = StringValue []"
    and "\<not> IsNull (Description (State resp'))"
    by (simp_all add: blank_workspace_def)
  with run ok show ?thesis by blast
qed

text \<open>
  C9: after a read that ends with no error diagnostic, the stored \<open>id\<close> is the text of
  the UUID of the workspace that \<open>Get\<close> returned, which is in canonical form: lower-case
  hexadecimal with hyphens. So a configured \<open>id\<close> that parses but is not in canonical
  form is not what is stored.
\<close>

theorem Read_canonical_id:
  assumes run: "Read d env req resp = Inr (resp', calls)"
    and ok: "\<not> HasError (Diagnostics resp')"
  shows "\<exists>c accountID wclient workspaceID workspace.
           client d = Some c \<and> Workspaces c accountID = Inr wclient \<and>
           uuid_Parse env (ValueString (ID (snd (Config_Get req)))) = Inr workspaceID \<and>
           Get wclient workspaceID = Inr workspace \<and>
           calls = [Call_Workspaces accountID, Call_Get workspaceID] \<and>
           ID (State resp') = StringValue (uuid_String (Workspace_ID workspace)) \<and>
           canonical_form (ValueString (ID (State resp'))) \<and>
           (\<not> canonical_form (ValueString (ID (snd (Config_Get req)))) \<longrightarrow>
              ID (State resp') \<noteq> ID (snd (Config_Get req)))"
proof -
  from Read_success [OF run ok] obtain c accountID wclient workspaceID workspace where
    path: "client d = Some c" "Workspaces c accountID = Inr wclient"
      "uuid_Parse env (ValueString (ID (snd (Config_Get req)))) = Inr workspaceID"
      "Get wclient workspaceID = Inr workspace"
      "calls = [Call_Workspaces accountID, Call_Get workspaceID]"
    and st: "State resp' = populate (snd (Config_Get req)) workspace"
    by blast
  from st have id: "ID (State resp') = StringValue (uuid_String (Workspace_ID workspace))"
    by (simp add: populate_def)
  then have canon: "canonical_form (ValueString (ID (State resp')))"
    by (simp add: canonical_uuid_String)
  then have "\<not> canonical_form (ValueString (ID (snd (Config_Get req)))) \<longrightarrow>
      ID (State resp') \<noteq> ID (snd (Config_Get req))"
    by auto
  with path id canon show ?thesis
    by (intro exI [of _ c] exI [of _ accountID] exI [of _ wclient] exI [of _ workspaceID]
        exI [of _ workspace]) simp
qed

theorem Read_canonical_id_witness:
  "\<exists>resp' calls.
     Read \<lparr>client = Some (stub_client ab_workspace)\<rparr> stub_env
       (request (config (StringValue ''ABABABAB-ABAB-ABAB-ABAB-ABABABABABAB'') StringNull
          StringNull))
       (response (config (StringValue ''ABABABAB-ABAB-ABAB-ABAB-ABABABABABAB'') StringNull
          StringNull)) = Inr (resp', calls) \<and>
     \<not> HasError (Diagnostics resp') \<and>
     \<not> canonical_form ''ABABABAB-ABAB-ABAB-ABAB-ABABABABABAB'' \<and>
     ID (State resp') = StringValue ''abababab-abab-abab-abab-abababababab''"
proof -
  let ?cfg = "config (StringValue ''ABABABAB-ABAB-ABAB-ABAB-ABABABABABAB'') StringNull StringNull"
  let ?d = "\<lparr>client = Some (stub_client ab_workspace)\<rparr>"
  obtain resp' calls where run: "Read ?d stub_env (request ?cfg) (response ?cfg) = Inr (resp', calls)"
    and ok: "\<not> HasError (Diagnostics resp')"
    by (simp add: Read_def request_def response_def config_def stub_env_def stub_Parse_def
        stub_client_def stub_workspaces_client_def ab_workspace_def prod_workspace_def
        prod_id_def ab_id_def resolve_accountID_def State_Set_def HasError_def)
  from Read_canonical_id [OF run ok]
  obtain c accountID wclient workspaceID workspace where
    c: "client ?d = Some c"
    and wc: "Workspaces c accountID = Inr wclient"
    and ws: "Get wclient workspaceID = Inr workspace"
    and id: "ID (State resp') = StringValue (uuid_String (Workspace_ID workspace))"
    by blast
  from c wc ws have "workspace = ab_workspace"
    by (auto simp: stub_client_def stub_workspaces_client_def split: if_splits)
  with id have "ID (State resp') = StringValue ''abababab-abab-abab-abab-abababababab''"
    by (simp add: ab_workspace_def prod_workspace_def ab_id_def hextable_def)
  moreover have "\<not> canonical_form ''ABABABAB-ABAB-ABAB-ABAB-ABABABABABAB''"
    by (simp add: canonical_form_def lower_hex_def)
  ultimately show ?thesis using run ok by blast
qed

end
